theory Spec2Isabelle
  imports Main "HOL-Library.Multiset" "HOL-Library.Product_Lexorder"
begin

section \<open>Data model of the judgement-insights page (app.py)\<close>

text \<open>
  The page is one script that the hosting framework re-executes from top to bottom after
  every user interaction. All data that outlives one execution sits in the session store
  \<^verbatim>\<open>st.session_state\<close>. The script is embedded block by block: every block takes the
  session store and returns the updated store together with the list of effects it
  produced (messages shown to the user and calls to the external libraries), in program
  order. Values returned by widgets and by the external libraries are inputs of a block.

  A Python \<^verbatim>\<open>str\<close> is a list with one element per character; the program only compares
  strings, tests them for emptiness, takes their length and slices prefixes.
  A \<^verbatim>\<open>datetime.date\<close> is its triple (year, month, day); Python orders dates by that
  triple, which is the lexicographic order on the product.
\<close>

type_synonym date = "nat \<times> nat \<times> nat"

type_synonym bytes = "char list"

text \<open>The values stored under the keys of the two nested dictionaries.\<close>

datatype pyval = VNone | VStr string | VDate date | VList "pyval list"

type_synonym pydict = "string \<rightharpoonup> pyval"

text \<open>\<^verbatim>\<open>d.get(k, default)\<close>: the default is returned only when the key is missing.\<close>

definition dict_get :: "pydict \<Rightarrow> string \<Rightarrow> pyval \<Rightarrow> pyval" where
  "dict_get d k dflt = (case d k of None \<Rightarrow> dflt | Some v \<Rightarrow> v)"

text \<open>
  An element of the \<^verbatim>\<open>hearings\<close> list. The handler of the add button stores dictionaries
  \<^verbatim>\<open>{"date": d, "summary": s}\<close>; the display code is written for elements that are not
  dictionaries and for dictionaries without a date as well. In \<open>HDict d s\<close> the first
  component is \<^verbatim>\<open>h.get('date')\<close> (a date, or \<open>None\<close> when the key is missing or holds
  \<^verbatim>\<open>None\<close>), the second is the text under \<^verbatim>\<open>'summary'\<close> (\<open>None\<close> when the key is missing).
\<close>

datatype hearing = NotDict | HDict "date option" "string option"

text \<open>\<^verbatim>\<open>default_session_state\<close> and the keys of \<^verbatim>\<open>st.session_state\<close>.\<close>

record session =
  case_details :: pydict
  timeline :: pydict
  hearings :: "hearing list"
  pdf_text :: "string option"
  summary :: "string option"
  gemini_configured :: bool
  gemini_error :: "string option"
  user_gemini_key :: string
  uploaded_file_id :: "string option"

definition default_session_state :: session where
  "default_session_state =
     \<lparr> case_details =
         [''name'' \<mapsto> VStr '''', ''number'' \<mapsto> VStr '''', ''court'' \<mapsto> VStr '''',
          ''judges'' \<mapsto> VStr '''', ''judgement_date'' \<mapsto> VNone, ''citations'' \<mapsto> VStr ''''],
       timeline =
         [''filing_date'' \<mapsto> VNone, ''decision_date'' \<mapsto> VNone, ''other_key_dates'' \<mapsto> VList []],
       hearings = [],
       pdf_text = None,
       summary = None,
       gemini_configured = False,
       gemini_error = None,
       user_gemini_key = '''',
       uploaded_file_id = None \<rparr>"

subsection \<open>Effects\<close>

datatype level = Info | Warning | Error | Success

text \<open>
  One constructor per kind of effect. \<open>Widget k v\<close> is an input widget with key \<open>k\<close> that
  is given \<open>v\<close> as its \<^verbatim>\<open>value\<close> argument, the value it shows before the user edits it.
  \<open>Configure k r\<close> is a call of the Gemini library with the key \<open>k\<close>, where \<open>r\<close> is
  \<open>None\<close> when the call returned and the message of the exception when it raised.
  \<open>Notice\<close> is a call of \<^verbatim>\<open>st.info\<close>, \<^verbatim>\<open>st.warning\<close>,
  \<^verbatim>\<open>st.error\<close> or \<^verbatim>\<open>st.success\<close> (main area or sidebar) with the message text; the icons
  are left out (for the one call that its icon makes raise, see \<open>generation_error\<close>).
  Messages that format a number or a date carry the value instead.
\<close>

datatype event =
    Notice level string
  | PdfTextExtracted nat
  | AddedHearing date
  | HearingShown nat date string
  | Configure string "string option"
  | OpenPdf bytes
  | GenerateContent string
  | PdfViewer bytes
  | Markdown string
  | Widget string pyval

text \<open>Truthiness of an optional string: \<^verbatim>\<open>None\<close> and the empty string are false.\<close>

fun truthy :: "string option \<Rightarrow> bool" where
  "truthy None = False"
| "truthy (Some s) = (s \<noteq> [])"

section \<open>Hearing summaries\<close>

subsection \<open>The add button (lines 314-324)\<close>

text \<open>
  \<^verbatim>\<open>new_hearing_date\<close> and \<^verbatim>\<open>new_hearing_summary\<close> are the values of the two input widgets.
  The session record always holds a list under \<^verbatim>\<open>hearings\<close>, so the re-initialisation
  of line 318 (taken when the key is missing or holds something that is not a list) has no
  counterpart here.
\<close>

definition add_hearing :: "date option \<Rightarrow> string \<Rightarrow> session \<Rightarrow> session \<times> event list" where
  "add_hearing new_hearing_date new_hearing_summary st =
     (case new_hearing_date of
        Some d \<Rightarrow>
          if new_hearing_summary \<noteq> [] then
            (st\<lparr>hearings := hearings st @ [HDict (Some d) (Some new_hearing_summary)]\<rparr>,
             [AddedHearing d])
          else (st, [Notice Warning ''Please provide both date and summary for the hearing.''])
      | None \<Rightarrow> (st, [Notice Warning ''Please provide both date and summary for the hearing.'']))"

subsection \<open>The list of recorded hearings (lines 326-342)\<close>

text \<open>\<^verbatim>\<open>isinstance(h, dict) and h.get('date')\<close>\<close>

fun has_date :: "hearing \<Rightarrow> bool" where
  "has_date (HDict (Some d) s) = True"
| "has_date _ = False"

definition valid_hearings :: "hearing list \<Rightarrow> hearing list" where
  "valid_hearings hs = filter has_date hs"

text \<open>
  The sort key \<^verbatim>\<open>x['date']\<close>. On an element without a date the lookup or the comparison
  of the keys raises; \<open>sorted_hearings\<close> returns the exception as \<open>Inl\<close> then, and the
  \<^verbatim>\<open>except\<close> clause of line 341 turns it into an error message.
  \<^verbatim>\<open>sorted\<close> is a stable sort, as is \<open>sort_key\<close>.
\<close>

fun hearing_date :: "hearing \<Rightarrow> date option" where
  "hearing_date (HDict d s) = d"
| "hearing_date NotDict = None"

definition date_key :: "hearing \<Rightarrow> date" where
  "date_key x = the (hearing_date x)"

definition sorted_hearings :: "hearing list \<Rightarrow> string + hearing list" where
  "sorted_hearings vs =
     (if list_all has_date vs then Inr (sort_key date_key vs) else Inl ''TypeError'')"

text \<open>\<^verbatim>\<open>hearing.get('summary', 'N/A')\<close>\<close>

fun hearing_summary :: "hearing \<Rightarrow> string" where
  "hearing_summary (HDict d (Some s)) = s"
| "hearing_summary _ = ''N/A''"

text \<open>The body of the loop over \<^verbatim>\<open>enumerate(sorted_hearings)\<close>; \<open>i\<close> counts from 0.\<close>

fun show_hearings :: "nat \<Rightarrow> hearing list \<Rightarrow> event list" where
  "show_hearings i [] = []"
| "show_hearings i (h # hs) =
     HearingShown (i + 1) (date_key h) (hearing_summary h) # show_hearings (i + 1) hs"

definition recorded_hearings :: "session \<Rightarrow> session \<times> event list" where
  "recorded_hearings st =
     (if hearings st = [] then (st, [Notice Info ''No hearing summaries added yet.''])
      else
        (case sorted_hearings (valid_hearings (hearings st)) of
           Inr shs \<Rightarrow> (st, show_hearings 0 shs)
         | Inl e \<Rightarrow> (st, [Notice Error (''Error displaying hearings: '' @ e)])))"

text \<open>The records that the loop shows, in the order of the page.\<close>

definition displayed_hearings :: "session \<Rightarrow> hearing list" where
  "displayed_hearings st =
     (case sorted_hearings (valid_hearings (hearings st)) of Inr shs \<Rightarrow> shs | Inl e \<Rightarrow> [])"

section \<open>Calls that can raise\<close>

text \<open>
  A call of an external library either returns a value or raises; \<open>Raised\<close> carries
  \<^verbatim>\<open>str(e)\<close> of the exception. A block of the script that an exception can leave has an
  \<open>outcome\<close> as its result: nothing catches an exception that leaves the handler of a
  button, so it ends the execution of the script.
\<close>

datatype 'a outcome = Returned 'a | Raised string

section \<open>Gemini configuration (lines 51-99)\<close>

text \<open>
  The response of \<^verbatim>\<open>generate_content\<close>, as far as the script reads it: \<^verbatim>\<open>response.parts\<close>,
  the accessor \<^verbatim>\<open>response.text\<close> (which can raise), \<^verbatim>\<open>response.prompt_feedback\<close> with
  its \<^verbatim>\<open>block_reason\<close> (\<open>None\<close>: no feedback; an empty reason is a false one) and the
  safety ratings of the first candidate (empty: no candidate or no ratings).
\<close>

record response =
  parts :: "string list"
  response_text :: "string outcome"
  prompt_feedback :: "string option outcome"
  candidate_safety_ratings :: "string outcome"

text \<open>
  A model handle \<^verbatim>\<open>genai.GenerativeModel(...)\<close> is what its \<^verbatim>\<open>generate_content\<close> does with a
  prompt and the safety settings.
\<close>

type_synonym gemini_model = "string \<Rightarrow> (string \<times> string) list \<Rightarrow> response outcome"

text \<open>Lines 55-65: which key to use. The user's key has been stored by line 43.\<close>

definition api_key_to_use :: "string option \<Rightarrow> session \<Rightarrow> (session \<times> string option) \<times> event list" where
  "api_key_to_use gemini_api_key_from_secrets st =
     (if truthy gemini_api_key_from_secrets then
        ((st, gemini_api_key_from_secrets), [Notice Success ''Using Gemini API Key from Secrets.''])
      else if user_gemini_key st \<noteq> [] then
        ((st, Some (user_gemini_key st)), [Notice Info ''Using user-provided Gemini API Key.''])
      else
        ((st\<lparr>gemini_configured := False\<rparr>, None),
         [Notice Warning ''Gemini API Key needed for AI features.'']))"

text \<open>
  Lines 69-99. \<open>genai\<close> stands for \<^verbatim>\<open>genai.configure(api_key=...)\<close> followed by
  \<^verbatim>\<open>genai.GenerativeModel('gemini-1.5-flash-latest')\<close>, the body of both \<^verbatim>\<open>try\<close> blocks.
  The result holds the local variable \<^verbatim>\<open>gemini_model\<close>.
\<close>

definition configure_gemini ::
  "(string \<Rightarrow> gemini_model outcome) \<Rightarrow> string option \<Rightarrow> session \<Rightarrow>
     (session \<times> gemini_model option) \<times> event list" where
  "configure_gemini genai key st =
     (if truthy key \<and> \<not> gemini_configured st \<and> gemini_error st = None then
        (case genai (the key) of
           Returned m \<Rightarrow>
             ((st\<lparr>gemini_configured := True, gemini_error := None\<rparr>, Some m),
              [Configure (the key) None])
         | Raised e \<Rightarrow>
             ((st\<lparr>gemini_configured := False, gemini_error := Some e\<rparr>, None),
              [Configure (the key) (Some e),
               Notice Error (''Failed to configure Gemini: '' @ e)]))
      else if gemini_configured st \<and> truthy key then
        (case genai (the key) of
           Returned m \<Rightarrow> ((st, Some m), [Configure (the key) None])
         | Raised e \<Rightarrow>
             ((st\<lparr>gemini_configured := False, gemini_error := Some e\<rparr>, None),
              [Configure (the key) (Some e),
               Notice Error (''Re-configuring Gemini failed: '' @ e)]))
      else if truthy (gemini_error st) then
        ((st, None), [Notice Error (''Gemini Config Error: '' @ the (gemini_error st))])
      else ((st, None), []))"

section \<open>File upload (lines 104-132 and 215-229)\<close>

record uploaded =
  file_id :: string
  content :: bytes

text \<open>
  The \<^verbatim>\<open>on_change\<close> callback of the uploader; \<open>pdf_uploader\<close> is the value of the widget
  when the callback runs.
\<close>

definition on_change :: "uploaded option \<Rightarrow> session \<Rightarrow> session" where
  "on_change pdf_uploader st =
     (if pdf_uploader = None then st\<lparr>pdf_text := None, summary := None, uploaded_file_id := None\<rparr>
      else st)"

text \<open>
  \<open>fitz\<close> stands for opening the bytes as a document and reading the text of every page:
  it returns the page texts in page order or raises.
\<close>

definition extract_text_from_pdf ::
  "(bytes \<Rightarrow> string list outcome) \<Rightarrow> bytes \<Rightarrow> string option \<times> event list" where
  "extract_text_from_pdf fitz file_bytes =
     (case fitz file_bytes of
        Returned pages \<Rightarrow> (Some (concat pages), [OpenPdf file_bytes])
      | Raised e \<Rightarrow>
          (None, [OpenPdf file_bytes, Notice Error (''Error extracting text from PDF: '' @ e)]))"

text \<open>Lines 216-229, for an uploaded file.\<close>

definition process_pdf_text ::
  "(bytes \<Rightarrow> string list outcome) \<Rightarrow> uploaded \<Rightarrow> session \<Rightarrow> session \<times> event list" where
  "process_pdf_text fitz uploaded_file st =
     (let current_file_id = file_id uploaded_file in
      if pdf_text st = None \<or> Some current_file_id \<noteq> uploaded_file_id st then
        (let (t, evs) = extract_text_from_pdf fitz (content uploaded_file) in
         (st\<lparr>pdf_text := t, summary := None, uploaded_file_id := Some current_file_id\<rparr>,
          evs @ [if truthy t then PdfTextExtracted (length (the t))
                 else Notice Error ''Failed to extract text. Cannot generate summary.'']))
      else (st, []))"

section \<open>The summarizer (lines 134-208)\<close>

definition max_chars :: nat where
  "max_chars = 100000"

definition safety_settings :: "(string \<times> string) list" where
  "safety_settings =
     [(''HARM_CATEGORY_HARASSMENT'', ''BLOCK_MEDIUM_AND_ABOVE''),
      (''HARM_CATEGORY_HATE_SPEECH'', ''BLOCK_MEDIUM_AND_ABOVE''),
      (''HARM_CATEGORY_SEXUALLY_EXPLICIT'', ''BLOCK_MEDIUM_AND_ABOVE''),
      (''HARM_CATEGORY_DANGEROUS_CONTENT'', ''BLOCK_MEDIUM_AND_ABOVE'')]"

text \<open>The two fixed parts of the prompt template, before and after \<^verbatim>\<open>{truncated_text}\<close>.\<close>

definition prompt_head :: string where
  "prompt_head =
     ''\<newline>    Please provide a concise executive summary of the following legal judgement text. Focus specifically on:'' @
     ''\<newline>    1.  The primary legal question(s) or issue(s) the court addressed.'' @
     ''\<newline>    2.  The court's main conclusion or holding on those issues.'' @
     ''\<newline>    3.  The core legal reasoning or principles applied by the court to reach the conclusion.'' @
     ''\<newline>    4.  The final disposition or outcome of the case (e.g., affirmed, reversed, remanded).'' @
     ''\<newline>'' @
     ''\<newline>    Keep the summary objective, factual, and suitable for a legal professional who needs a quick understanding of the case's essence. Avoid opinions or interpretations not explicitly stated in the text. Use clear and precise legal language where appropriate. Aim for 3-5 paragraphs.'' @
     ''\<newline>'' @
     ''\<newline>    Text to summarize:'' @
     ''\<newline>    ---'' @
     ''\<newline>    ''"

definition prompt_tail :: string where
  "prompt_tail = ''\<newline>    ---\<newline>    Summary:\<newline>    ''"

definition prompt :: "string \<Rightarrow> string" where
  "prompt truncated_text = prompt_head @ truncated_text @ prompt_tail"

text \<open>\<^verbatim>\<open>sub in s\<close> on strings, and \<^verbatim>\<open>s.lower()\<close> on the letters A to Z.\<close>

fun contains :: "string \<Rightarrow> string \<Rightarrow> bool" where
  "contains sub [] = (sub = [])"
| "contains sub (c # cs) = (take (length sub) (c # cs) = sub \<or> contains sub cs)"

definition lower_char :: "char \<Rightarrow> char" where
  "lower_char c =
     (let n = (of_char c :: nat) in if 65 \<le> n \<and> n \<le> 90 then char_of (n + 32) else c)"

definition lower :: "string \<Rightarrow> string" where
  "lower s = map lower_char s"

text \<open>Lines 189-197: the reason and the ratings reported for a response without parts.\<close>

definition block_details :: "response \<Rightarrow> string \<times> string" where
  "block_details r =
     (case prompt_feedback r of
        Raised e \<Rightarrow> (''Unknown'', ''N/A'')
      | Returned pf \<Rightarrow>
          (let block_reason =
                 (case pf of None \<Rightarrow> ''Unknown''
                  | Some b \<Rightarrow> if b \<noteq> [] then b else ''Not specified'')
           in case candidate_safety_ratings r of
                Raised e \<Rightarrow> (block_reason, ''N/A'')
              | Returned sr \<Rightarrow> (block_reason, if sr \<noteq> [] then sr else ''N/A'')))"

text \<open>
  Lines 201-208: the handler of the \<^verbatim>\<open>except Exception as e\<close> clause. \<^verbatim>\<open>st.error\<close> checks
  its \<^verbatim>\<open>icon\<close> argument and raises \<^verbatim>\<open>StreamlitAPIException\<close> unless it is a single
  emoji. The icon of line 207 is a space, the letter R and an emoji, so that call raises
  instead of showing its message, and the exception leaves the handler and the function.
  \<open>invalid_icon\<close> stands for the message of that exception, written in ASCII.
\<close>

definition invalid_icon :: string where
  "invalid_icon = ''StreamlitAPIException: the value of icon is not a valid emoji''"

definition generation_error :: "string \<Rightarrow> string option outcome \<times> event list" where
  "generation_error e =
     (if contains ''API key not valid'' e then
        (Returned None,
         [Notice Error (''Gemini API Error during generation: '' @ e),
          Notice Error ''Please check if your Gemini API Key is correct and active.''])
      else if contains ''quota'' (lower e) then
        (Raised invalid_icon, [Notice Error (''Gemini API Error during generation: '' @ e)])
      else (Returned None, [Notice Error (''Gemini API Error during generation: '' @ e)]))"

text \<open>
  Lines 168-208: the \<^verbatim>\<open>try\<close> statement. Every exception raised in its body is caught
  by the handler; what the handler raises is not.
\<close>

definition generate :: "gemini_model \<Rightarrow> string \<Rightarrow> string option outcome \<times> event list" where
  "generate model p =
     (case model p safety_settings of
        Raised e \<Rightarrow> generation_error e
      | Returned r \<Rightarrow>
          if parts r \<noteq> [] then
            (case response_text r of
               Returned t \<Rightarrow> (Returned (Some t), [])
             | Raised e \<Rightarrow> generation_error e)
          else
            (let (block_reason, ratings) = block_details r in
             (Returned None,
              [Notice Error (''Summary generation failed or was blocked. Reason: '' @ block_reason @
                 ''. Safety Ratings: '' @ ratings)])))"

text \<open>
  The result is the returned value (\<open>None\<close> for every failure) or an exception that
  leaves the function.
\<close>

definition summarize_with_gemini ::
  "session \<Rightarrow> string option \<Rightarrow> gemini_model option \<Rightarrow> string option outcome \<times> event list" where
  "summarize_with_gemini st text_to_summarize model =
     (if \<not> gemini_configured st \<or> model = None then
        (Returned None, [Notice Warning ''Gemini not configured. Cannot summarize.''])
      else if \<not> truthy text_to_summarize \<or> length (the text_to_summarize) < 50 then
        (Returned None,
         [Notice Warning ''Not enough text extracted from PDF to summarize effectively.''])
      else
        (let truncated_text = take max_chars (the text_to_summarize);
             notice =
               (if length (the text_to_summarize) > max_chars then
                  [Notice Info ''Summarizing the first 100000 characters due to length limit.'']
                else []);
             (res, evs) = generate (the model) (prompt truncated_text)
         in (res, notice @ GenerateContent (prompt truncated_text) # evs)))"

section \<open>The main area (lines 215-342)\<close>

text \<open>Lines 254-269: the body of the handler of the summary button.\<close>

definition generate_summary ::
  "gemini_model option \<Rightarrow> session \<Rightarrow> session outcome \<times> event list" where
  "generate_summary gemini_model st =
     (if gemini_model \<noteq> None \<and> truthy (pdf_text st) then
        (case summarize_with_gemini st (pdf_text st) gemini_model of
           (Raised e, evs) \<Rightarrow> (Raised e, evs)
         | (Returned summary_result, evs) \<Rightarrow>
             if truthy summary_result then (Returned (st\<lparr>summary := summary_result\<rparr>), evs)
             else
               (Returned st,
                evs @ [Notice Warning ''Summary generation failed. Please check errors above.'']))
      else if \<not> truthy (pdf_text st) then
        (Returned st, [Notice Warning ''Cannot generate summary - PDF text missing.''])
      else (Returned st, [Notice Error ''Cannot generate summary - Gemini configuration issue.'']))"

text \<open>
  Lines 251 and 273-285: the message under the button. \<open>disabled\<close> is the local variable
  \<^verbatim>\<open>summarize_button_disabled\<close>, computed before the handler of the button runs. The
  test \<^verbatim>\<open>and uploaded_file\<close> of line 279 is true throughout this branch of the script.
\<close>

definition summarize_button_disabled :: "session \<Rightarrow> bool" where
  "summarize_button_disabled st = (\<not> gemini_configured st \<or> \<not> truthy (pdf_text st))"

definition summary_display :: "bool \<Rightarrow> session \<Rightarrow> event list" where
  "summary_display disabled st =
     (if truthy (summary st) then
        [Markdown ''**Generated Summary:**'', Markdown (''> '' @ the (summary st)), Markdown ''---'']
      else if disabled \<and> truthy (gemini_error st) then
        [Notice Warning (''Cannot generate summary. Fix API configuration error in sidebar: '' @
           the (gemini_error st))]
      else if disabled \<and> \<not> truthy (pdf_text st) then
        [Notice Warning ''Cannot generate summary because text extraction failed.'']
      else if disabled then
        [Notice Info ''Configure Gemini API and upload a valid PDF to enable summary generation.'']
      else if \<not> disabled \<and> \<not> truthy (summary st) then
        [Notice Info ''Click the button above to generate an AI summary.'']
      else [])"

subsection \<open>Manual entry (lines 290-305)\<close>

text \<open>
  The values that the widgets and the external libraries return in one execution of the
  script, under the keys of the widgets. \<open>generate_btn\<close> and \<open>add_hearing_btn\<close> are the
  results of the two buttons; \<open>pdf_uploader_changed\<close> tells whether the framework calls
  the \<^verbatim>\<open>on_change\<close> callback of the uploader before it runs the script.
\<close>

record inputs =
  gemini_api_key_from_secrets :: "string option"
  gemini_key_input :: string
  genai :: "string \<Rightarrow> gemini_model outcome"
  pdf_uploader_changed :: bool
  pdf_uploader :: "uploaded option"
  fitz :: "bytes \<Rightarrow> string list outcome"
  generate_btn :: bool
  case_name :: string
  case_number :: string
  case_court :: string
  case_judges :: string
  case_judgement_date :: "date option"
  case_citations :: string
  timeline_filing :: "date option"
  timeline_decision :: "date option"
  new_hearing_date :: "date option"
  new_hearing_summary :: string
  add_hearing_btn :: bool

fun of_date :: "date option \<Rightarrow> pyval" where
  "of_date None = VNone"
| "of_date (Some d) = VDate d"

definition edit_case_details :: "inputs \<Rightarrow> session \<Rightarrow> session \<times> event list" where
  "edit_case_details i st =
     (let cd = case_details st in
      (st\<lparr>case_details := cd
            (''name'' \<mapsto> VStr (case_name i),
             ''number'' \<mapsto> VStr (case_number i),
             ''court'' \<mapsto> VStr (case_court i),
             ''judges'' \<mapsto> VStr (case_judges i),
             ''judgement_date'' \<mapsto> of_date (case_judgement_date i),
             ''citations'' \<mapsto> VStr (case_citations i))\<rparr>,
       [Widget ''case_name'' (dict_get cd ''name'' (VStr [])),
        Widget ''case_number'' (dict_get cd ''number'' (VStr [])),
        Widget ''case_court'' (dict_get cd ''court'' (VStr [])),
        Widget ''case_judges'' (dict_get cd ''judges'' (VStr [])),
        Widget ''case_judgement_date'' (dict_get cd ''judgement_date'' VNone),
        Widget ''case_citations'' (dict_get cd ''citations'' (VStr []))]))"

text \<open>Lines 301-302: the value that the decision-date field is given.\<close>

definition timeline_decision_date :: "session \<Rightarrow> pyval" where
  "timeline_decision_date st =
     (let default_decision_date = dict_get (case_details st) ''judgement_date'' VNone
      in dict_get (timeline st) ''decision_date'' default_decision_date)"

definition edit_timeline :: "inputs \<Rightarrow> session \<Rightarrow> session \<times> event list" where
  "edit_timeline i st =
     (st\<lparr>timeline := (timeline st)
           (''filing_date'' \<mapsto> of_date (timeline_filing i),
            ''decision_date'' \<mapsto> of_date (timeline_decision i))\<rparr>,
      [Widget ''timeline_filing'' (dict_get (timeline st) ''filing_date'' VNone),
       Widget ''timeline_decision'' (timeline_decision_date st)])"

subsection \<open>The script\<close>

text \<open>
  Lines 215-342: the branch for an uploaded file. The viewer component is taken to show
  the file (\<open>PdfViewer\<close>); an exception of the handler of the summary button ends the
  execution of the script.
\<close>

definition main_area ::
  "inputs \<Rightarrow> gemini_model option \<Rightarrow> uploaded \<Rightarrow> session \<Rightarrow> session outcome \<times> event list" where
  "main_area i gemini_model uploaded_file st =
     (let (st1, ev1) = process_pdf_text (fitz i) uploaded_file st;
          ev2 = [PdfViewer (content uploaded_file)];
          disabled = summarize_button_disabled st1;
          (r, ev3) = (if generate_btn i then generate_summary gemini_model st1
                      else (Returned st1, []))
      in case r of
           Raised e \<Rightarrow> (Raised e, ev1 @ ev2 @ ev3)
         | Returned st2 \<Rightarrow>
             (let ev4 = summary_display disabled st2;
                  (st3, ev5) = edit_case_details i st2;
                  (st4, ev6) = edit_timeline i st3;
                  (st5, ev7) =
                    (if add_hearing_btn i
                     then add_hearing (new_hearing_date i) (new_hearing_summary i) st4
                     else (st4, []));
                  (st6, ev8) = recorded_hearings st5
              in (Returned st6, ev1 @ ev2 @ ev3 @ ev4 @ ev5 @ ev6 @ ev7 @ ev8)))"

text \<open>Lines 43-99: the sidebar up to the uploader.\<close>

definition sidebar ::
  "inputs \<Rightarrow> session \<Rightarrow> (session \<times> gemini_model option) \<times> event list" where
  "sidebar i st =
     (let st1 = st\<lparr>user_gemini_key := gemini_key_input i\<rparr>;
          ((st2, key), ev1) = api_key_to_use (gemini_api_key_from_secrets i) st1;
          ((st3, gemini_model), ev2) = configure_gemini (genai i) key st2
      in ((st3, gemini_model), ev1 @ ev2))"

text \<open>
  One execution of the script on a session store that holds every key (the loop of
  lines 26-28 adds nothing then).
\<close>

definition script :: "inputs \<Rightarrow> session \<Rightarrow> session outcome \<times> event list" where
  "script i st =
     (let ((st1, gemini_model), ev1) = sidebar i st
      in case pdf_uploader i of
           Some uploaded_file \<Rightarrow>
             (let (r, ev2) = main_area i gemini_model uploaded_file st1
              in (r, ev1 @ ev2))
         | None \<Rightarrow>
             (Returned st1,
              ev1 @ [Notice Info ''Upload a PDF file using the sidebar to get started.'']))"

text \<open>
  A render pass: the callback of the uploader when its value has changed, then the script.
  \<open>render_passes\<close> runs one pass after the other on the session store.
\<close>

definition render_pass :: "inputs \<Rightarrow> session \<Rightarrow> session outcome \<times> event list" where
  "render_pass i st =
     script i (if pdf_uploader_changed i then on_change (pdf_uploader i) st else st)"

fun render_passes :: "inputs list \<Rightarrow> session \<Rightarrow> session outcome" where
  "render_passes [] st = Returned st"
| "render_passes (i # is) st =
     (case fst (render_pass i st) of
        Returned st' \<Rightarrow> render_passes is st'
      | Raised e \<Rightarrow> Raised e)"

section \<open>Notions used in the statements\<close>

text \<open>The calls of the two libraries that the sidebar and the upload block make.\<close>

fun is_open_pdf :: "event \<Rightarrow> bool" where
  "is_open_pdf (OpenPdf b) = True"
| "is_open_pdf ev = False"

fun is_configure :: "event \<Rightarrow> bool" where
  "is_configure (Configure k r) = True"
| "is_configure ev = False"

text \<open>Effects without a call of either library.\<close>

definition quiet :: "event list \<Rightarrow> bool" where
  "quiet evs = list_all (\<lambda>ev. \<not> is_open_pdf ev \<and> \<not> is_configure ev) evs"

text \<open>The number of extraction attempts among the effects of a pass.\<close>

definition extraction_attempts :: "event list \<Rightarrow> nat" where
  "extraction_attempts evs = length (filter is_open_pdf evs)"

text \<open>The key that a pass works with: the one from the secrets, else the one typed in.\<close>

definition key_available :: "inputs \<Rightarrow> string option" where
  "key_available i =
     (if truthy (gemini_api_key_from_secrets i) then gemini_api_key_from_secrets i
      else if gemini_key_input i \<noteq> [] then Some (gemini_key_input i)
      else None)"

section \<open>Example inputs\<close>

text \<open>An execution in which nothing is entered, uploaded or clicked.\<close>

definition idle_inputs :: inputs where
  "idle_inputs =
     \<lparr> gemini_api_key_from_secrets = None,
       gemini_key_input = [],
       genai = (\<lambda>k. Raised ''API key not valid. Please pass a valid API key.''),
       pdf_uploader_changed = False,
       pdf_uploader = None,
       fitz = (\<lambda>b. Raised ''Failed to open stream''),
       generate_btn = False,
       case_name = [],
       case_number = [],
       case_court = [],
       case_judges = [],
       case_judgement_date = None,
       case_citations = [],
       timeline_filing = None,
       timeline_decision = None,
       new_hearing_date = None,
       new_hearing_summary = [],
       add_hearing_btn = False \<rparr>"

definition example_file :: uploaded where
  "example_file = \<lparr> file_id = ''upload-1'', content = ''%PDF-1.7'' \<rparr>"

text \<open>A file that the PDF library cannot read is in the uploader.\<close>

definition broken_upload :: inputs where
  "broken_upload = idle_inputs\<lparr>pdf_uploader := Some example_file\<rparr>"

text \<open>The session store after a pass on \<open>broken_upload\<close>: no text, the identity recorded.\<close>

definition after_broken_upload :: session where
  "after_broken_upload = default_session_state\<lparr>uploaded_file_id := Some ''upload-1''\<rparr>"

text \<open>A model that answers every prompt with the same text, and a library that yields it.\<close>

definition answering_model :: gemini_model where
  "answering_model p settings =
     Returned \<lparr> parts = [''The appeal is dismissed.''],
                response_text = Returned ''The appeal is dismissed.'',
                prompt_feedback = Returned None,
                candidate_safety_ratings = Returned [] \<rparr>"

text \<open>A model whose every call fails with an exhausted quota.\<close>

definition quota_model :: gemini_model where
  "quota_model p settings = Raised ''429 Quota exceeded''"

text \<open>
  A key that the library accepts is typed in and a readable file of 60 characters is
  uploaded; in the next pass the summary button is pressed.
\<close>

definition quota_upload :: inputs where
  "quota_upload =
     idle_inputs\<lparr>gemini_key_input := ''good-key'', genai := (\<lambda>k. Returned quota_model),
       pdf_uploader := Some example_file, fitz := (\<lambda>b. Returned [replicate 60 CHR ''a''])\<rparr>"

definition quota_click :: inputs where
  "quota_click = quota_upload\<lparr>generate_btn := True\<rparr>"

text \<open>A file whose pages hold no text is in the uploader.\<close>

definition empty_upload :: inputs where
  "empty_upload =
     idle_inputs\<lparr>pdf_uploader := Some example_file, fitz := (\<lambda>b. Returned [[], []])\<rparr>"

text \<open>The session store after a pass on \<open>empty_upload\<close>: an empty text, the identity recorded.\<close>

definition after_empty_upload :: session where
  "after_empty_upload =
     default_session_state\<lparr>pdf_text := Some [], uploaded_file_id := Some ''upload-1''\<rparr>"

text \<open>A user key is typed in and the library rejects it.\<close>

definition rejected_key :: inputs where
  "rejected_key = idle_inputs\<lparr>gemini_key_input := ''wrong-key''\<rparr>"

text \<open>A later pass with another key that the library would accept.\<close>

definition accepted_key :: inputs where
  "accepted_key =
     idle_inputs\<lparr>gemini_key_input := ''good-key'', genai := (\<lambda>k. Returned answering_model)\<rparr>"

text \<open>The judgement date is entered while a file is shown.\<close>

definition judgement_date_entered :: inputs where
  "judgement_date_entered =
     idle_inputs\<lparr>pdf_uploader := Some example_file, case_judgement_date := Some (2024, 1, 15)\<rparr>"

text \<open>Stored hearings: two on the same day, one later, and two entries without a date.\<close>

definition example_hearings :: "hearing list" where
  "example_hearings =
     [HDict (Some (2024, 3, 1)) (Some ''Arguments concluded''),
      NotDict,
      HDict (Some (2024, 1, 15)) (Some ''Notice issued''),
      HDict None (Some ''Undated note''),
      HDict (Some (2024, 1, 15)) (Some ''Counter filed'')]"

section \<open>Hearing summaries: the add button and the displayed list\<close>

text \<open>
  The filter leaves only records with a date, so the sort never raises and the
  \<^verbatim>\<open>except\<close> clause of line 341 is never entered.
\<close>

lemma sorted_hearings_valid:
  "sorted_hearings (valid_hearings hs) = Inr (sort_key date_key (filter has_date hs))"
  by (simp add: sorted_hearings_def valid_hearings_def list_all_iff)

lemma displayed_hearings_eq:
  "displayed_hearings st = sort_key date_key (filter has_date (hearings st))"
  by (simp add: displayed_hearings_def sorted_hearings_valid)

lemma recorded_hearings_eq:
  "recorded_hearings st =
     (st, if hearings st = [] then [Notice Info ''No hearing summaries added yet.'']
          else show_hearings 0 (displayed_hearings st))"
  by (simp add: recorded_hearings_def displayed_hearings_def sorted_hearings_valid)

text \<open>
  Claim C7. An add-hearing action with a missing date or an empty summary leaves the
  session store as it is and emits the warning; with both present it appends exactly one
  record with that date and summary at the end of the stored sequence and changes nothing
  else.
\<close>

theorem add_hearing_rejects_or_appends:
  "(d = None \<or> s = [] \<longrightarrow>
      add_hearing d s st =
        (st, [Notice Warning ''Please provide both date and summary for the hearing.'']))
   \<and> (\<forall>d'. d = Some d' \<and> s \<noteq> [] \<longrightarrow>
        fst (add_hearing d s st) = st\<lparr>hearings := hearings st @ [HDict (Some d') (Some s)]\<rparr>)"
  by (simp add: add_hearing_def split: option.splits)

theorem add_hearing_rejects_or_appends_witness:
  "add_hearing None ''Adjourned'' default_session_state =
     (default_session_state,
      [Notice Warning ''Please provide both date and summary for the hearing.''])
   \<and> add_hearing (Some (2024, 5, 1)) [] default_session_state =
     (default_session_state,
      [Notice Warning ''Please provide both date and summary for the hearing.''])
   \<and> fst (add_hearing (Some (2024, 5, 1)) ''Adjourned'' default_session_state) =
     default_session_state
       \<lparr>hearings := hearings default_session_state @ [HDict (Some (2024, 5, 1)) (Some ''Adjourned'')]\<rparr>"
  using add_hearing_rejects_or_appends [of None "''Adjourned''" default_session_state]
    add_hearing_rejects_or_appends [of "Some (2024, 5, 1)" "[]" default_session_state]
    add_hearing_rejects_or_appends [of "Some (2024, 5, 1)" "''Adjourned''" default_session_state]
  by simp

text \<open>
  Claim C4, as stated: the displayed list is in strict ascending order by date. Two
  hearings recorded for the same day are both displayed, one after the other, so the
  dates of the displayed list are not strictly ascending.
\<close>

theorem displayed_hearings_not_strict:
  "\<not> sorted_wrt (<) (map date_key (displayed_hearings
        (default_session_state
           \<lparr>hearings := [HDict (Some (2024, 1, 15)) (Some ''Notice issued''),
                         HDict (Some (2024, 1, 15)) (Some ''Counter filed'')]\<rparr>)))"
  by (simp add: displayed_hearings_eq date_key_def)

text \<open>
  Claim C4, amended. The displayed list consists of exactly the stored records that have a
  date (each as often as it is stored), in ascending order by date, where records of the
  same day stay next to each other; the order is strictly ascending when no two of these
  records have the same date. Producing the display returns the session store unchanged.
\<close>

theorem displayed_hearings_sorted_valid:
  "mset (displayed_hearings st) = filter_mset has_date (mset (hearings st))
   \<and> sorted (map date_key (displayed_hearings st))
   \<and> (distinct (map date_key (valid_hearings (hearings st))) \<longrightarrow>
        sorted_wrt (<) (map date_key (displayed_hearings st)))
   \<and> recorded_hearings st =
       (st, if hearings st = [] then [Notice Info ''No hearing summaries added yet.'']
            else show_hearings 0 (displayed_hearings st))"
proof -
  have "distinct (map date_key (sort_key date_key (filter has_date (hearings st))))"
    if "distinct (map date_key (filter has_date (hearings st)))"
    using that by (simp add: distinct_map)
  then show ?thesis
    by (simp add: displayed_hearings_eq recorded_hearings_eq [unfolded displayed_hearings_eq]
        valid_hearings_def strict_sorted_iff)
qed

theorem displayed_hearings_sorted_valid_witness:
  "distinct (map date_key (valid_hearings (hearings
      (default_session_state\<lparr>hearings := [HDict (Some (2024, 3, 1)) (Some ''Arguments concluded''),
         NotDict, HDict (Some (2024, 1, 15)) (Some ''Notice issued'')]\<rparr>))))
   \<and> sorted_wrt (<) (map date_key (displayed_hearings
      (default_session_state\<lparr>hearings := [HDict (Some (2024, 3, 1)) (Some ''Arguments concluded''),
         NotDict, HDict (Some (2024, 1, 15)) (Some ''Notice issued'')]\<rparr>)))
   \<and> mset (displayed_hearings
      (default_session_state\<lparr>hearings := [HDict (Some (2024, 3, 1)) (Some ''Arguments concluded''),
         NotDict, HDict (Some (2024, 1, 15)) (Some ''Notice issued'')]\<rparr>)) =
     {#HDict (Some (2024, 1, 15)) (Some ''Notice issued''),
       HDict (Some (2024, 3, 1)) (Some ''Arguments concluded'')#}"
  using displayed_hearings_sorted_valid
    [of "default_session_state\<lparr>hearings := [HDict (Some (2024, 3, 1)) (Some ''Arguments concluded''),
         NotDict, HDict (Some (2024, 1, 15)) (Some ''Notice issued'')]\<rparr>"]
  by (simp add: valid_hearings_def date_key_def)

text \<open>
  Claim C10. The display sort is stable: for every date, the displayed records of that
  date are the stored records of that date in the order in which they are stored.
\<close>

theorem displayed_hearings_stable:
  "filter (\<lambda>h. date_key h = k) (displayed_hearings st) =
   filter (\<lambda>h. has_date h \<and> date_key h = k) (hearings st)"
  by (simp add: displayed_hearings_eq sort_key_stable conj_commute)

theorem displayed_hearings_stable_witness:
  "filter (\<lambda>h. date_key h = (2024, 1, 15))
     (displayed_hearings (default_session_state\<lparr>hearings := example_hearings\<rparr>)) =
   [HDict (Some (2024, 1, 15)) (Some ''Notice issued''),
    HDict (Some (2024, 1, 15)) (Some ''Counter filed'')]"
  using displayed_hearings_stable [of "(2024, 1, 15)" "default_session_state\<lparr>hearings := example_hearings\<rparr>"]
  by (simp add: example_hearings_def date_key_def)

section \<open>The summarizer\<close>

lemma generation_error_events:
  "ev \<in> set (snd (generation_error e)) \<Longrightarrow> \<exists>msg. ev = Notice Error msg"
  by (auto simp: generation_error_def split: if_splits)

lemma generate_events: "ev \<in> set (snd (generate m p)) \<Longrightarrow> \<exists>msg. ev = Notice Error msg"
  by (auto simp: generate_def split: outcome.splits prod.splits if_splits
      dest: generation_error_events)

text \<open>The effects of a call of the summarizer that passes both checks.\<close>

lemma summarize_with_gemini_events:
  assumes "gemini_configured st" and "50 \<le> length t"
  shows "snd (summarize_with_gemini st (Some t) (Some m)) =
      (if length t > max_chars
       then [Notice Info ''Summarizing the first 100000 characters due to length limit.'']
       else [])
      @ GenerateContent (prompt (take max_chars t)) # snd (generate m (prompt (take max_chars t)))"
proof -
  have "t \<noteq> []" using assms(2) by auto
  then show ?thesis
    using assms by (simp add: summarize_with_gemini_def Let_def split: prod.splits)
qed

text \<open>
  Claim C6. For every text that is absent, empty or shorter than 50 characters the
  summarizer returns its failure value and sends no request to the model; when the client
  is configured, what it reports is the not-enough-text warning and nothing else.
\<close>

theorem summarize_rejects_short_text:
  assumes "t = None \<or> length (the t) < 50"
  shows "fst (summarize_with_gemini st t m) = Returned None
     \<and> (\<forall>p. GenerateContent p \<notin> set (snd (summarize_with_gemini st t m)))
     \<and> (gemini_configured st \<and> m \<noteq> None \<longrightarrow>
          snd (summarize_with_gemini st t m) =
            [Notice Warning ''Not enough text extracted from PDF to summarize effectively.''])"
  using assms by (auto simp: summarize_with_gemini_def)

theorem summarize_rejects_short_text_witness:
  "length (the (Some ''Order reserved.'')) < 50
   \<and> summarize_with_gemini (default_session_state\<lparr>gemini_configured := True\<rparr>)
        (Some ''Order reserved.'') (Some answering_model) =
      (Returned None,
       [Notice Warning ''Not enough text extracted from PDF to summarize effectively.''])
   \<and> summarize_with_gemini (default_session_state\<lparr>gemini_configured := True\<rparr>)
        None (Some answering_model) =
      (Returned None,
       [Notice Warning ''Not enough text extracted from PDF to summarize effectively.''])"
proof -
  have h: "Some ''Order reserved.'' = None \<or> length (the (Some ''Order reserved.'')) < 50"
    by simp
  have c: "gemini_configured (default_session_state\<lparr>gemini_configured := True\<rparr>)
      \<and> Some answering_model \<noteq> None"
    by simp
  show ?thesis
    using h c
      summarize_rejects_short_text [OF h, of "default_session_state\<lparr>gemini_configured := True\<rparr>"
        "Some answering_model"]
      summarize_rejects_short_text [of None "default_session_state\<lparr>gemini_configured := True\<rparr>"
        "Some answering_model"]
    by (simp add: prod_eq_iff)
qed

text \<open>
  Claim C5. When the summarizer builds a prompt (the client is configured and the text has
  at least 50 characters): for a text of more than 100,000 characters the one request it
  sends is the template around exactly the first 100,000 characters, and the truncation
  notice is emitted; for a text of at most 100,000 characters the one request is the
  template around the full text, and no truncation notice is emitted.
\<close>

theorem summarize_truncates_long_text:
  assumes "gemini_configured st" and "50 \<le> length t"
  shows "(length t > 100000 \<longrightarrow>
            (\<forall>p. GenerateContent p \<in> set (snd (summarize_with_gemini st (Some t) (Some m)))
                 \<longleftrightarrow> p = prompt_head @ take 100000 t @ prompt_tail)
          \<and> length (take 100000 t) = 100000
          \<and> Notice Info ''Summarizing the first 100000 characters due to length limit.''
               \<in> set (snd (summarize_with_gemini st (Some t) (Some m))))
       \<and> (length t \<le> 100000 \<longrightarrow>
            (\<forall>p. GenerateContent p \<in> set (snd (summarize_with_gemini st (Some t) (Some m)))
                 \<longleftrightarrow> p = prompt_head @ t @ prompt_tail)
          \<and> Notice Info ''Summarizing the first 100000 characters due to length limit.''
               \<notin> set (snd (summarize_with_gemini st (Some t) (Some m))))"
  unfolding summarize_with_gemini_events [OF assms]
  by (auto simp: max_chars_def prompt_def dest: generate_events)

theorem summarize_truncates_long_text_witness:
  "gemini_configured (default_session_state\<lparr>gemini_configured := True\<rparr>)
   \<and> 100000 < length (replicate 100001 CHR ''a'')
   \<and> GenerateContent (prompt_head @ replicate 100000 CHR ''a'' @ prompt_tail)
       \<in> set (snd (summarize_with_gemini (default_session_state\<lparr>gemini_configured := True\<rparr>)
            (Some (replicate 100001 CHR ''a'')) (Some answering_model)))
   \<and> Notice Info ''Summarizing the first 100000 characters due to length limit.''
       \<in> set (snd (summarize_with_gemini (default_session_state\<lparr>gemini_configured := True\<rparr>)
            (Some (replicate 100001 CHR ''a'')) (Some answering_model)))
   \<and> 50 \<le> length (replicate 60 CHR ''a'') \<and> length (replicate 60 CHR ''a'') \<le> 100000
   \<and> GenerateContent (prompt_head @ replicate 60 CHR ''a'' @ prompt_tail)
       \<in> set (snd (summarize_with_gemini (default_session_state\<lparr>gemini_configured := True\<rparr>)
            (Some (replicate 60 CHR ''a'')) (Some answering_model)))
   \<and> Notice Info ''Summarizing the first 100000 characters due to length limit.''
       \<notin> set (snd (summarize_with_gemini (default_session_state\<lparr>gemini_configured := True\<rparr>)
            (Some (replicate 60 CHR ''a'')) (Some answering_model)))"
proof -
  have c: "gemini_configured (default_session_state\<lparr>gemini_configured := True\<rparr>)"
    by simp
  have l1: "50 \<le> length (replicate 100001 CHR ''a'')"
    and l2: "50 \<le> length (replicate 60 CHR ''a'')"
    by (simp_all only: length_replicate)
  have g1: "100000 < length (replicate 100001 CHR ''a'')"
    and g2: "length (replicate 60 CHR ''a'') \<le> 100000"
    by (simp_all only: length_replicate)
  have t: "take 100000 (replicate 100001 CHR ''a'') = replicate 100000 CHR ''a''"
    by (simp only: take_replicate) simp
  from summarize_truncates_long_text [OF c l1, of answering_model] g1
  have long: "GenerateContent (prompt_head @ replicate 100000 CHR ''a'' @ prompt_tail)
       \<in> set (snd (summarize_with_gemini (default_session_state\<lparr>gemini_configured := True\<rparr>)
            (Some (replicate 100001 CHR ''a'')) (Some answering_model)))
     \<and> Notice Info ''Summarizing the first 100000 characters due to length limit.''
       \<in> set (snd (summarize_with_gemini (default_session_state\<lparr>gemini_configured := True\<rparr>)
            (Some (replicate 100001 CHR ''a'')) (Some answering_model)))"
    unfolding t by blast
  from summarize_truncates_long_text [OF c l2, of answering_model] g2
  have short: "GenerateContent (prompt_head @ replicate 60 CHR ''a'' @ prompt_tail)
       \<in> set (snd (summarize_with_gemini (default_session_state\<lparr>gemini_configured := True\<rparr>)
            (Some (replicate 60 CHR ''a'')) (Some answering_model)))
     \<and> Notice Info ''Summarizing the first 100000 characters due to length limit.''
       \<notin> set (snd (summarize_with_gemini (default_session_state\<lparr>gemini_configured := True\<rparr>)
            (Some (replicate 60 CHR ''a'')) (Some answering_model)))"
    by blast
  show ?thesis
    using c g1 l2 g2 long short by blast
qed

section \<open>The handler of the summary button\<close>

text \<open>
  When the handler returns, it has either left the session store as it was or stored a
  complete non-empty text that the summarizer returned.
\<close>

lemma generate_summary_cases:
  assumes "fst (generate_summary m st) = Returned st'"
  shows "st' = st
     \<or> (\<exists>t. t \<noteq> [] \<and> fst (summarize_with_gemini st (pdf_text st) m) = Returned (Some t)
           \<and> st' = st\<lparr>summary := Some t\<rparr>)"
proof (cases "m \<noteq> None \<and> truthy (pdf_text st)")
  case True
  obtain r evs where s: "summarize_with_gemini st (pdf_text st) m = (r, evs)"
    by (cases "summarize_with_gemini st (pdf_text st) m")
  show ?thesis
  proof (cases r)
    case (Returned v)
    then show ?thesis
      using assms True s by (cases v) (auto simp: generate_summary_def split: if_splits)
  next
    case (Raised x)
    then show ?thesis
      using assms True s by (simp add: generate_summary_def)
  qed
next
  case False
  then show ?thesis
    using assms by (auto simp: generate_summary_def split: if_splits)
qed

lemma generate_summary_without_model: "fst (generate_summary None st) = Returned st"
  by (simp add: generate_summary_def)

text \<open>
  A call of the model that fails with the message ``429 Quota exceeded'': the handler of
  the \<^verbatim>\<open>except\<close> clause shows the error and then raises itself (the call of line 207),
  so the exception leaves \<^verbatim>\<open>summarize_with_gemini\<close>.
\<close>

lemma quota_error_leaves_summarizer:
  assumes "gemini_configured st"
  shows "summarize_with_gemini st (Some (replicate 60 CHR ''a'')) (Some quota_model) =
     (Raised invalid_icon,
      [GenerateContent (prompt (replicate 60 CHR ''a'')),
       Notice Error ''Gemini API Error during generation: 429 Quota exceeded''])"
proof -
  have q1: "contains ''quota'' (lower ''429 Quota exceeded'')"
    by code_simp
  have q2: "\<not> contains ''API key not valid'' ''429 Quota exceeded''"
    by simp
  have g: "generation_error ''429 Quota exceeded'' =
      (Raised invalid_icon,
       [Notice Error ''Gemini API Error during generation: 429 Quota exceeded''])"
    using q1 q2 by (simp add: generation_error_def)
  show ?thesis
    using assms
    by (simp add: summarize_with_gemini_def generate_def quota_model_def g max_chars_def Let_def)
qed

text \<open>
  Claim C8 at a concrete input. The client is configured, the stored text has 60
  characters, a summary is stored, and the call of the model fails with the message
  ``429 Quota exceeded''. The exception that the handler of the \<^verbatim>\<open>except\<close> clause raises
  leaves the handler of the summary button. So it does in a session: after a pass in which
  an accepted key is typed in and a readable file is uploaded, the pass in which the
  summary button is pressed ends with that exception. An exception escapes, against the
  claim.
\<close>

theorem quota_error_escapes:
  "fst (generate_summary (Some quota_model)
       (default_session_state\<lparr>gemini_configured := True,
          pdf_text := Some (replicate 60 CHR ''a''), summary := Some ''An earlier summary.''\<rparr>)) =
     Raised invalid_icon
   \<and> render_passes [quota_upload, quota_click] default_session_state = Raised invalid_icon"
proof -
  have h: "fst (generate_summary (Some quota_model)
       (default_session_state\<lparr>gemini_configured := True,
          pdf_text := Some (replicate 60 CHR ''a''), summary := Some ''An earlier summary.''\<rparr>)) =
     Raised invalid_icon"
    by (simp add: generate_summary_def quota_error_leaves_summarizer)
  have p1: "\<exists>st1. fst (render_pass quota_upload default_session_state) = Returned st1
      \<and> gemini_configured st1 \<and> gemini_error st1 = None
      \<and> pdf_text st1 = Some (replicate 60 CHR ''a'')
      \<and> uploaded_file_id st1 = Some ''upload-1''"
    by (simp add: quota_upload_def idle_inputs_def example_file_def
        default_session_state_def render_pass_def script_def sidebar_def api_key_to_use_def
        configure_gemini_def main_area_def process_pdf_text_def extract_text_from_pdf_def
        summarize_button_disabled_def summary_display_def edit_case_details_def
        edit_timeline_def recorded_hearings_def timeline_decision_date_def dict_get_def
        Let_def)
  have p2: "fst (render_pass quota_click st1) = Raised invalid_icon"
    if "gemini_configured st1" "gemini_error st1 = None"
      "pdf_text st1 = Some (replicate 60 CHR ''a'')" "uploaded_file_id st1 = Some ''upload-1''"
    for st1
    using that
    by (simp add: quota_click_def quota_upload_def idle_inputs_def example_file_def
        render_pass_def script_def sidebar_def api_key_to_use_def
        configure_gemini_def main_area_def process_pdf_text_def
        generate_summary_def quota_error_leaves_summarizer Let_def)
  have r: "render_passes [quota_upload, quota_click] default_session_state = Raised invalid_icon"
    using p1 p2 by auto
  show ?thesis
    using h r by simp
qed

section \<open>The uploader\<close>

text \<open>
  Claim C9. When the callback of the uploader runs with an empty uploader, \<^verbatim>\<open>pdf_text\<close>,
  \<^verbatim>\<open>summary\<close> and \<^verbatim>\<open>uploaded_file_id\<close> are reset to absent and every other field of the
  session store keeps its value.
\<close>

theorem on_change_resets_document:
  "on_change None st = st\<lparr>pdf_text := None, summary := None, uploaded_file_id := None\<rparr>
   \<and> pdf_text (on_change None st) = None
   \<and> summary (on_change None st) = None
   \<and> uploaded_file_id (on_change None st) = None
   \<and> case_details (on_change None st) = case_details st
   \<and> timeline (on_change None st) = timeline st
   \<and> hearings (on_change None st) = hearings st
   \<and> user_gemini_key (on_change None st) = user_gemini_key st
   \<and> gemini_configured (on_change None st) = gemini_configured st
   \<and> gemini_error (on_change None st) = gemini_error st"
  by (simp add: on_change_def)

theorem on_change_resets_document_witness:
  "on_change None
     (default_session_state\<lparr>pdf_text := Some ''JUDGMENT'', summary := Some ''Dismissed.'',
        uploaded_file_id := Some ''upload-1'', gemini_error := Some ''API key not valid''\<rparr>) =
   default_session_state\<lparr>gemini_error := Some ''API key not valid''\<rparr>"
  using on_change_resets_document
    [of "default_session_state\<lparr>pdf_text := Some ''JUDGMENT'', summary := Some ''Dismissed.'',
        uploaded_file_id := Some ''upload-1'', gemini_error := Some ''API key not valid''\<rparr>"]
  by (simp add: default_session_state_def)

section \<open>What each block of the script changes and which library calls it makes\<close>

lemma quiet_Nil [simp]: "quiet []"
  by (simp add: quiet_def)

lemma quiet_Cons [simp]:
  "quiet (ev # evs) \<longleftrightarrow> \<not> is_open_pdf ev \<and> \<not> is_configure ev \<and> quiet evs"
  by (simp add: quiet_def)

lemma quiet_append [simp]: "quiet (xs @ ys) \<longleftrightarrow> quiet xs \<and> quiet ys"
  by (simp add: quiet_def)

lemma extraction_attempts_Nil [simp]: "extraction_attempts [] = 0"
  by (simp add: extraction_attempts_def)

lemma extraction_attempts_Cons [simp]:
  "extraction_attempts (ev # evs) = (if is_open_pdf ev then 1 else 0) + extraction_attempts evs"
  by (simp add: extraction_attempts_def)

lemma extraction_attempts_append [simp]:
  "extraction_attempts (xs @ ys) = extraction_attempts xs + extraction_attempts ys"
  by (simp add: extraction_attempts_def)

lemma quiet_extraction_attempts: "quiet evs \<Longrightarrow> extraction_attempts evs = 0"
  by (induction evs) auto

lemma quiet_not_configure: "quiet evs \<Longrightarrow> Configure k r \<notin> set evs"
  by (induction evs) auto

lemma quiet_errors: "\<forall>ev\<in>set evs. \<exists>msg. ev = Notice Error msg \<Longrightarrow> quiet evs"
  by (induction evs) auto

lemma generate_quiet: "quiet (snd (generate m p))"
  by (rule quiet_errors) (auto dest: generate_events)

lemma summarize_with_gemini_quiet: "quiet (snd (summarize_with_gemini st t m))"
  using generate_quiet [of "the m" "prompt (take max_chars (the t))"]
  by (auto simp: summarize_with_gemini_def Let_def split: prod.splits)

lemma generate_summary_quiet: "quiet (snd (generate_summary m st))"
  using summarize_with_gemini_quiet [of st "pdf_text st" m]
  by (auto simp: generate_summary_def split: prod.splits outcome.splits)

lemma generate_summary_frame:
  "fst (generate_summary m st) = Returned st' \<Longrightarrow> st' = st\<lparr>summary := summary st'\<rparr>"
  using generate_summary_cases [of m st st'] by auto

lemma show_hearings_quiet: "quiet (show_hearings n hs)"
  by (induction hs arbitrary: n) auto

lemma recorded_hearings_quiet: "quiet (snd (recorded_hearings st))"
  by (simp add: recorded_hearings_eq show_hearings_quiet)

lemma add_hearing_frame:
  "fst (add_hearing d s st) = st\<lparr>hearings := hearings (fst (add_hearing d s st))\<rparr>"
  by (simp add: add_hearing_def split: option.splits)

lemma add_hearing_quiet: "quiet (snd (add_hearing d s st))"
  by (simp add: add_hearing_def split: option.splits)

lemma summary_display_quiet: "quiet (summary_display b st)"
  by (simp add: summary_display_def)

lemma api_key_to_use_quiet: "quiet (snd (api_key_to_use k st))"
  by (simp add: api_key_to_use_def)

lemma configure_gemini_no_open_pdf: "extraction_attempts (snd (configure_gemini g k st)) = 0"
  by (simp add: configure_gemini_def split: outcome.splits)

text \<open>The upload block: what it does in its two cases.\<close>

lemma extract_text_from_pdf_attempts:
  "extraction_attempts (snd (extract_text_from_pdf fz b)) = 1
   \<and> (\<forall>k r. Configure k r \<notin> set (snd (extract_text_from_pdf fz b)))"
  by (simp add: extract_text_from_pdf_def split: outcome.splits)

lemma process_pdf_text_same:
  "pdf_text st \<noteq> None \<Longrightarrow> uploaded_file_id st = Some (file_id f) \<Longrightarrow>
   process_pdf_text fz f st = (st, [])"
  by (auto simp: process_pdf_text_def Let_def)

lemma process_pdf_text_new:
  assumes "pdf_text st = None \<or> uploaded_file_id st \<noteq> Some (file_id f)"
  shows "fst (process_pdf_text fz f st) =
      st\<lparr>pdf_text := fst (extract_text_from_pdf fz (content f)), summary := None,
         uploaded_file_id := Some (file_id f)\<rparr>
    \<and> extraction_attempts (snd (process_pdf_text fz f st)) = 1"
  using assms extract_text_from_pdf_attempts [of fz "content f"]
  by (auto simp: process_pdf_text_def Let_def split: prod.splits)

lemma process_pdf_text_no_configure: "Configure k r \<notin> set (snd (process_pdf_text fz f st))"
  using extract_text_from_pdf_attempts [of fz "content f"]
  by (auto simp: process_pdf_text_def Let_def split: prod.splits if_splits)

lemma process_pdf_text_frame:
  "fst (process_pdf_text fz f st) =
     st\<lparr>pdf_text := pdf_text (fst (process_pdf_text fz f st)),
        summary := summary (fst (process_pdf_text fz f st)),
        uploaded_file_id := uploaded_file_id (fst (process_pdf_text fz f st))\<rparr>"
  by (simp add: process_pdf_text_def Let_def split: prod.splits)

text \<open>
  The main area makes no library call after the upload block. When it returns, it has
  changed, after the upload block, only the summary, the case details, the timeline and
  the hearings. It returns whenever the summary button is not pressed or there is no
  model handle.
\<close>

lemma main_area_frame:
  "\<exists>r rest. main_area i m f st = (r, snd (process_pdf_text (fitz i) f st) @ rest)
     \<and> quiet rest
     \<and> (\<forall>st'. r = Returned st' \<longrightarrow>
          st' = (fst (process_pdf_text (fitz i) f st))
            \<lparr>summary := summary st', case_details := case_details st',
             timeline := timeline st', hearings := hearings st'\<rparr>
          \<and> (\<not> generate_btn i \<longrightarrow> summary st' = summary (fst (process_pdf_text (fitz i) f st))))
     \<and> (m = None \<or> \<not> generate_btn i \<longrightarrow> (\<exists>st'. r = Returned st'))"
proof -
  obtain st1 ev1 where p: "process_pdf_text (fitz i) f st = (st1, ev1)"
    by (cases "process_pdf_text (fitz i) f st")
  obtain r0 ev3 where g:
    "(if generate_btn i then generate_summary m st1 else (Returned st1, [])) = (r0, ev3)"
    by (cases "if generate_btn i then generate_summary m st1 else (Returned st1, [])")
  have e3: "quiet ev3"
    using g generate_summary_quiet [of m st1] by (auto split: if_splits)
  show ?thesis
  proof (cases r0)
    case (Raised x)
    have b: "generate_btn i"
      using g Raised by (auto split: if_splits)
    have n: "m \<noteq> None"
    proof
      assume "m = None"
      then show False
        using g b Raised generate_summary_without_model [of st1] by simp
    qed
    have "main_area i m f st = (Raised x, ev1 @ [PdfViewer (content f)] @ ev3)"
      using p g Raised by (simp add: main_area_def Let_def)
    then show ?thesis
      using p e3 b n
      by (intro exI [of _ "Raised x"] exI [of _ "[PdfViewer (content f)] @ ev3"]) simp
  next
    case (Returned st2)
    have st2: "st2 = st1\<lparr>summary := summary st2\<rparr>"
      using g Returned generate_summary_frame [of m st1 st2] by (cases "generate_btn i") auto
    have s2: "\<not> generate_btn i \<Longrightarrow> st2 = st1"
      using g Returned by simp
    obtain st3 ev5 where c: "edit_case_details i st2 = (st3, ev5)"
      by (cases "edit_case_details i st2")
    obtain st4 ev6 where t: "edit_timeline i st3 = (st4, ev6)"
      by (cases "edit_timeline i st3")
    obtain st5 ev7 where a:
      "(if add_hearing_btn i then add_hearing (new_hearing_date i) (new_hearing_summary i) st4
        else (st4, [])) = (st5, ev7)"
      by (cases "if add_hearing_btn i
        then add_hearing (new_hearing_date i) (new_hearing_summary i) st4 else (st4, [])")
    have st3: "st3 = st2\<lparr>case_details := case_details st3\<rparr>" and e5: "quiet ev5"
      using c by (auto simp: edit_case_details_def Let_def)
    have st4: "st4 = st3\<lparr>timeline := timeline st4\<rparr>" and e6: "quiet ev6"
      using t by (auto simp: edit_timeline_def)
    have st5: "st5 = st4\<lparr>hearings := hearings st5\<rparr>"
      using a add_hearing_frame [of "new_hearing_date i" "new_hearing_summary i" st4]
      by (cases "add_hearing_btn i") auto
    have e7: "quiet ev7"
      using a add_hearing_quiet [of "new_hearing_date i" "new_hearing_summary i" st4]
      by (auto split: if_splits)
    obtain ev8 where rh: "recorded_hearings st5 = (st5, ev8)" and e8: "quiet ev8"
      using recorded_hearings_quiet [of st5] by (simp add: recorded_hearings_eq)
    have m: "main_area i m f st =
        (Returned st5,
         ev1 @ [PdfViewer (content f)] @ ev3 @ summary_display (summarize_button_disabled st1) st2
           @ ev5 @ ev6 @ ev7 @ ev8)"
      using p g Returned c t a rh by (simp add: main_area_def Let_def)
    have f5: "summary st5 = summary st4" "case_details st5 = case_details st4"
      "timeline st5 = timeline st4"
      using arg_cong [OF st5, of summary] arg_cong [OF st5, of case_details]
        arg_cong [OF st5, of timeline] by simp_all
    have f4: "summary st4 = summary st3" "case_details st4 = case_details st3"
      using arg_cong [OF st4, of summary] arg_cong [OF st4, of case_details] by simp_all
    have f3: "summary st3 = summary st2"
      using arg_cong [OF st3, of summary] by simp
    have fr: "st5 = st1\<lparr>summary := summary st5, case_details := case_details st5,
        timeline := timeline st5, hearings := hearings st5\<rparr>"
      by (subst st5, subst st4, subst st3, subst st2) (simp add: f5 f4 f3)
    have su: "\<not> generate_btn i \<longrightarrow> summary st5 = summary st1"
      using s2 f5 f4 f3 by simp
    have q: "quiet ([PdfViewer (content f)] @ ev3 @
        summary_display (summarize_button_disabled st1) st2 @ ev5 @ ev6 @ ev7 @ ev8)"
      using e3 e5 e6 e7 e8 by (simp add: summary_display_quiet)
    show ?thesis
      using m p fr su q
      by (intro exI [of _ "Returned st5"] exI [of _ "[PdfViewer (content f)] @ ev3 @
        summary_display (summarize_button_disabled st1) st2 @ ev5 @ ev6 @ ev7 @ ev8"]) simp
  qed
qed

text \<open>The sidebar changes only the stored key, the configured flag and the stored error.\<close>

lemma sidebar_frame:
  "fst (fst (sidebar i st)) =
     st\<lparr>user_gemini_key := gemini_key_input i,
        gemini_configured := gemini_configured (fst (fst (sidebar i st))),
        gemini_error := gemini_error (fst (fst (sidebar i st)))\<rparr>"
  by (simp add: sidebar_def api_key_to_use_def configure_gemini_def Let_def
      split: outcome.splits)

lemma sidebar_no_open_pdf: "extraction_attempts (snd (sidebar i st)) = 0"
  by (simp add: sidebar_def api_key_to_use_def configure_gemini_def Let_def
      split: outcome.splits)

lemma sidebar_failure:
  "Configure k (Some e) \<in> set (snd (sidebar i st)) \<Longrightarrow>
   gemini_error (fst (fst (sidebar i st))) = Some e \<and> \<not> gemini_configured (fst (fst (sidebar i st)))
   \<and> snd (fst (sidebar i st)) = None"
  by (auto simp: sidebar_def api_key_to_use_def configure_gemini_def Let_def
      split: outcome.splits if_splits)

lemma sidebar_keeps_error:
  "gemini_error st = Some e \<Longrightarrow> \<not> gemini_configured st \<Longrightarrow>
   gemini_error (fst (fst (sidebar i st))) = Some e \<and> \<not> gemini_configured (fst (fst (sidebar i st)))
   \<and> snd (fst (sidebar i st)) = None
   \<and> quiet (snd (sidebar i st))"
  by (simp add: sidebar_def api_key_to_use_def configure_gemini_def Let_def)

lemma sidebar_attempt:
  "key_available i = Some k \<Longrightarrow> \<not> gemini_configured st \<Longrightarrow> gemini_error st = None \<Longrightarrow>
   \<exists>r. Configure k r \<in> set (snd (sidebar i st))"
  by (auto simp: key_available_def sidebar_def api_key_to_use_def configure_gemini_def Let_def
      split: outcome.splits if_splits)

text \<open>One execution of the script, in terms of the sidebar and the upload block.\<close>

lemma script_without_file:
  "pdf_uploader i = None \<Longrightarrow>
   script i st =
     (Returned (fst (fst (sidebar i st))),
      snd (sidebar i st) @ [Notice Info ''Upload a PDF file using the sidebar to get started.''])"
  by (simp add: script_def split: prod.splits)

lemma script_with_file:
  assumes "pdf_uploader i = Some f"
  shows "\<exists>r rest.
      script i st =
        (r, snd (sidebar i st) @ snd (process_pdf_text (fitz i) f (fst (fst (sidebar i st)))) @ rest)
      \<and> quiet rest
      \<and> (\<forall>st'. r = Returned st' \<longrightarrow>
           st' = (fst (process_pdf_text (fitz i) f (fst (fst (sidebar i st)))))
             \<lparr>summary := summary st', case_details := case_details st',
              timeline := timeline st', hearings := hearings st'\<rparr>
           \<and> (\<not> generate_btn i \<longrightarrow>
                summary st' = summary (fst (process_pdf_text (fitz i) f (fst (fst (sidebar i st)))))))
      \<and> (snd (fst (sidebar i st)) = None \<or> \<not> generate_btn i \<longrightarrow> (\<exists>st'. r = Returned st'))"
proof -
  obtain st1 m ev1 where s: "sidebar i st = ((st1, m), ev1)"
    by (cases "sidebar i st") auto
  obtain r rest where
    "main_area i m f st1 = (r, snd (process_pdf_text (fitz i) f st1) @ rest)"
    "quiet rest"
    "\<forall>st'. r = Returned st' \<longrightarrow>
       st' = (fst (process_pdf_text (fitz i) f st1))
          \<lparr>summary := summary st', case_details := case_details st',
           timeline := timeline st', hearings := hearings st'\<rparr>
       \<and> (\<not> generate_btn i \<longrightarrow> summary st' = summary (fst (process_pdf_text (fitz i) f st1)))"
    "m = None \<or> \<not> generate_btn i \<longrightarrow> (\<exists>st'. r = Returned st')"
    using main_area_frame [of i m f st1] by blast
  then show ?thesis
    using assms s by (intro exI [of _ r] exI [of _ rest]) (simp add: script_def)
qed

section \<open>Text extraction per uploaded file\<close>

lemma render_pass_with_file:
  "pdf_uploader i = Some f \<Longrightarrow> render_pass i st = script i st"
  by (simp add: render_pass_def on_change_def)

text \<open>
  The number of extraction attempts of a render pass with a file present: none when the
  identity of the file is the stored one and a text is stored, one otherwise.
\<close>

lemma extraction_attempts_of_pass:
  assumes "pdf_uploader i = Some f"
  shows "extraction_attempts (snd (render_pass i st)) =
     (if pdf_text st \<noteq> None \<and> uploaded_file_id st = Some (file_id f) then 0 else 1)"
proof -
  define st1 where "st1 = fst (fst (sidebar i st))"
  obtain r rest where
    sc: "script i st = (r, snd (sidebar i st) @ snd (process_pdf_text (fitz i) f st1) @ rest)"
    and q: "quiet rest"
    using script_with_file [OF assms, of st] unfolding st1_def by blast
  have s1: "pdf_text st1 = pdf_text st" "uploaded_file_id st1 = uploaded_file_id st"
    using arg_cong [OF sidebar_frame [of i st], of pdf_text]
      arg_cong [OF sidebar_frame [of i st], of uploaded_file_id]
    by (simp_all add: st1_def)
  have n: "extraction_attempts (snd (render_pass i st)) =
      extraction_attempts (snd (process_pdf_text (fitz i) f st1))"
    using sc q by (simp add: render_pass_with_file [OF assms] sidebar_no_open_pdf
        quiet_extraction_attempts)
  show ?thesis
  proof (cases "pdf_text st \<noteq> None \<and> uploaded_file_id st = Some (file_id f)")
    case True
    then show ?thesis
      using n s1 process_pdf_text_same [of st1 f "fitz i"] by simp
  next
    case False
    then have "pdf_text st1 = None \<or> uploaded_file_id st1 \<noteq> Some (file_id f)"
      using s1 by auto
    then show ?thesis
      using False n process_pdf_text_new [of st1 f "fitz i"] by simp
  qed
qed

text \<open>
  Claim C1 at a concrete input. A file that the PDF library cannot read is uploaded. The
  first render pass makes its extraction attempt, which fails: the identity of the file is
  stored and \<^verbatim>\<open>pdf_text\<close> stays absent. In the next render pass the same file is
  present, its identity equals the stored \<^verbatim>\<open>uploaded_file_id\<close>, and text extraction is run
  again: a second attempt without a change of identity, against the claim and against the
  comment of line 218 (``only once per new file upload'').
\<close>

theorem same_file_extracted_again:
  "pdf_uploader broken_upload = Some example_file
   \<and> fst (render_pass broken_upload default_session_state) = Returned after_broken_upload
   \<and> uploaded_file_id after_broken_upload = Some (file_id example_file)
   \<and> extraction_attempts (snd (render_pass broken_upload after_broken_upload)) = 1"
  by (simp add: broken_upload_def idle_inputs_def example_file_def after_broken_upload_def
      default_session_state_def render_pass_def script_def sidebar_def api_key_to_use_def
      configure_gemini_def main_area_def process_pdf_text_def extract_text_from_pdf_def
      summarize_button_disabled_def summary_display_def edit_case_details_def
      edit_timeline_def recorded_hearings_def timeline_decision_date_def dict_get_def
      Let_def)
    (rule ext, simp)

text \<open>
  The other failure of the extraction is not tried again: for a file whose pages hold no
  text the script reports the failure as well, but the empty text is stored, and the next
  render pass with the same file makes no extraction attempt.
\<close>

lemma empty_text_not_extracted_again:
  "fst (render_pass empty_upload default_session_state) = Returned after_empty_upload
   \<and> Notice Error ''Failed to extract text. Cannot generate summary.''
       \<in> set (snd (render_pass empty_upload default_session_state))
   \<and> extraction_attempts (snd (render_pass empty_upload default_session_state)) = 1
   \<and> extraction_attempts (snd (render_pass empty_upload after_empty_upload)) = 0"
  by (simp add: empty_upload_def idle_inputs_def example_file_def after_empty_upload_def
      default_session_state_def render_pass_def script_def sidebar_def api_key_to_use_def
      configure_gemini_def main_area_def process_pdf_text_def extract_text_from_pdf_def
      summarize_button_disabled_def summary_display_def edit_case_details_def
      edit_timeline_def recorded_hearings_def timeline_decision_date_def dict_get_def
      Let_def)
    (rule ext, simp)

section \<open>Gemini configuration across render passes\<close>

lemma on_change_gemini:
  "gemini_error (on_change u st) = gemini_error st
   \<and> gemini_configured (on_change u st) = gemini_configured st"
  by (simp add: on_change_def)

text \<open>
  The calls of the Gemini configuration in a render pass are those of the sidebar. When
  the pass returns, the configured flag and the stored error are as the sidebar leaves
  them; and it returns whenever the sidebar yields no model handle.
\<close>

lemma render_pass_shape:
  "\<exists>r evs.
     render_pass i st =
       (r, snd (sidebar i (if pdf_uploader_changed i then on_change (pdf_uploader i) st else st)) @ evs)
     \<and> (\<forall>k r. Configure k r \<notin> set evs)
     \<and> (\<forall>st'. r = Returned st' \<longrightarrow>
          gemini_error st' =
            gemini_error (fst (fst (sidebar i
              (if pdf_uploader_changed i then on_change (pdf_uploader i) st else st))))
          \<and> gemini_configured st' =
            gemini_configured (fst (fst (sidebar i
              (if pdf_uploader_changed i then on_change (pdf_uploader i) st else st)))))
     \<and> (snd (fst (sidebar i
            (if pdf_uploader_changed i then on_change (pdf_uploader i) st else st))) = None \<longrightarrow>
          (\<exists>st'. r = Returned st'))"
proof -
  define st0 where "st0 = (if pdf_uploader_changed i then on_change (pdf_uploader i) st else st)"
  show ?thesis
  proof (cases "pdf_uploader i")
    case None
    then show ?thesis
      by (simp add: render_pass_def script_without_file)
  next
    case (Some f)
    define st1 where "st1 = fst (fst (sidebar i st0))"
    define st2 where "st2 = fst (process_pdf_text (fitz i) f st1)"
    obtain r rest where
      sc: "script i st0 =
        (r, snd (sidebar i st0) @ snd (process_pdf_text (fitz i) f st1) @ rest)"
      and q: "quiet rest"
      and fr: "\<forall>st'. r = Returned st' \<longrightarrow>
          st' = st2\<lparr>summary := summary st', case_details := case_details st',
            timeline := timeline st', hearings := hearings st'\<rparr>"
      and rt: "snd (fst (sidebar i st0)) = None \<longrightarrow> (\<exists>st'. r = Returned st')"
      using script_with_file [OF Some, of st0] unfolding st1_def st2_def by blast
    have g2: "gemini_error st2 = gemini_error st1" "gemini_configured st2 = gemini_configured st1"
      using arg_cong [OF process_pdf_text_frame [of "fitz i" f st1], of gemini_error]
        arg_cong [OF process_pdf_text_frame [of "fitz i" f st1], of gemini_configured]
      by (simp_all add: st2_def)
    have g: "gemini_error st' = gemini_error st1 \<and> gemini_configured st' = gemini_configured st1"
      if "r = Returned st'" for st'
    proof -
      have e: "st' = st2\<lparr>summary := summary st', case_details := case_details st',
            timeline := timeline st', hearings := hearings st'\<rparr>"
        using fr that by blast
      show ?thesis
        using arg_cong [OF e, of gemini_error] arg_cong [OF e, of gemini_configured] g2
        by simp
    qed
    have nc: "\<forall>k r. Configure k r \<notin> set (snd (process_pdf_text (fitz i) f st1) @ rest)"
      using q by (simp add: process_pdf_text_no_configure quiet_not_configure)
    show ?thesis
      using sc g nc rt unfolding render_pass_def st0_def [symmetric] st1_def
      by (intro exI [of _ r] exI [of _ "snd (process_pdf_text (fitz i) f st1) @ rest"])
        (simp add: st1_def)
  qed
qed

lemma render_pass_keeps_error:
  assumes "gemini_error st = Some e" and "\<not> gemini_configured st"
  shows "\<exists>st'. fst (render_pass i st) = Returned st'
     \<and> gemini_error st' = Some e \<and> \<not> gemini_configured st'"
proof -
  define st0 where "st0 = (if pdf_uploader_changed i then on_change (pdf_uploader i) st else st)"
  have "gemini_error st0 = Some e" and "\<not> gemini_configured st0"
    using assms by (simp_all add: st0_def on_change_gemini)
  then have "gemini_error (fst (fst (sidebar i st0))) = Some e
      \<and> \<not> gemini_configured (fst (fst (sidebar i st0)))
      \<and> snd (fst (sidebar i st0)) = None"
    using sidebar_keeps_error [of st0 e i] by simp
  then show ?thesis
    using render_pass_shape [of i st] unfolding st0_def by auto
qed

lemma render_passes_keep_error:
  "gemini_error st = Some e \<Longrightarrow> \<not> gemini_configured st \<Longrightarrow>
   \<exists>st'. render_passes js st = Returned st' \<and> gemini_error st' = Some e \<and> \<not> gemini_configured st'"
proof (induction js arbitrary: st)
  case Nil
  then show ?case by simp
next
  case (Cons j js)
  obtain st1 where "fst (render_pass j st) = Returned st1"
    and "gemini_error st1 = Some e" and "\<not> gemini_configured st1"
    using render_pass_keeps_error [OF Cons.prems, of j] by blast
  then show ?case
    using Cons.IH [of st1] by simp
qed

text \<open>
  Claim C2. When the configuration call of a render pass raises, the message of the
  exception is stored, and it is still the stored \<^verbatim>\<open>gemini_error\<close> after every sequence of
  later render passes (whatever key they supply). In every render pass in which a key is
  available, the client is not configured and no error is stored, a configuration call
  is made with that key.
\<close>

theorem configuration_error_persists:
  "(Configure k (Some e) \<in> set (snd (render_pass i st)) \<longrightarrow>
      (\<forall>js. \<exists>st'. render_passes (i # js) st = Returned st' \<and> gemini_error st' = Some e))
   \<and> (key_available i = Some k \<and> \<not> gemini_configured st \<and> gemini_error st = None \<longrightarrow>
        (\<exists>r. Configure k r \<in> set (snd (render_pass i st))))"
proof -
  define st0 where "st0 = (if pdf_uploader_changed i then on_change (pdf_uploader i) st else st)"
  obtain r evs where
    rp: "render_pass i st = (r, snd (sidebar i st0) @ evs)"
    and nc: "\<forall>k r. Configure k r \<notin> set evs"
    and gs: "\<forall>st'. r = Returned st' \<longrightarrow>
       gemini_error st' = gemini_error (fst (fst (sidebar i st0)))
       \<and> gemini_configured st' = gemini_configured (fst (fst (sidebar i st0)))"
    and rt: "snd (fst (sidebar i st0)) = None \<longrightarrow> (\<exists>st'. r = Returned st')"
    using render_pass_shape [of i st] unfolding st0_def by (elim exE conjE) auto
  have persist: "\<exists>st'. render_passes (i # js) st = Returned st' \<and> gemini_error st' = Some e"
    if "Configure k (Some e) \<in> set (snd (render_pass i st))" for js
  proof -
    have "Configure k (Some e) \<in> set (snd (sidebar i st0))"
      using that rp nc by simp
    then have f: "gemini_error (fst (fst (sidebar i st0))) = Some e
        \<and> \<not> gemini_configured (fst (fst (sidebar i st0)))
        \<and> snd (fst (sidebar i st0)) = None"
      using sidebar_failure [of k e i st0] by simp
    then obtain st1 where r: "r = Returned st1"
      using rt by blast
    then have "gemini_error st1 = Some e" and "\<not> gemini_configured st1"
      using f gs by simp_all
    then show ?thesis
      using render_passes_keep_error [of st1 e js] rp r by auto
  qed
  have attempt: "\<exists>r. Configure k r \<in> set (snd (render_pass i st))"
    if "key_available i = Some k \<and> \<not> gemini_configured st \<and> gemini_error st = None"
  proof -
    have "\<not> gemini_configured st0" and "gemini_error st0 = None"
      using that by (simp_all add: st0_def on_change_gemini)
    then show ?thesis
      using sidebar_attempt [of i k st0] that rp by auto
  qed
  show ?thesis
    using persist attempt by blast
qed

theorem configuration_error_persists_witness:
  "Configure ''wrong-key'' (Some ''API key not valid. Please pass a valid API key.'')
     \<in> set (snd (render_pass rejected_key default_session_state))
   \<and> (\<exists>st'. render_passes [rejected_key, accepted_key, rejected_key] default_session_state =
          Returned st'
        \<and> gemini_error st' = Some ''API key not valid. Please pass a valid API key.'')
   \<and> key_available rejected_key = Some ''wrong-key''
   \<and> \<not> gemini_configured default_session_state
   \<and> gemini_error default_session_state = None"
proof -
  have c: "Configure ''wrong-key'' (Some ''API key not valid. Please pass a valid API key.'')
     \<in> set (snd (render_pass rejected_key default_session_state))"
    by (simp add: rejected_key_def idle_inputs_def default_session_state_def render_pass_def
        script_def sidebar_def api_key_to_use_def configure_gemini_def Let_def)
  have k: "key_available rejected_key = Some ''wrong-key''
      \<and> \<not> gemini_configured default_session_state \<and> gemini_error default_session_state = None"
    by (simp add: key_available_def rejected_key_def idle_inputs_def default_session_state_def)
  show ?thesis
    using c k configuration_error_persists
      [of "''wrong-key''" "''API key not valid. Please pass a valid API key.''" rejected_key
        default_session_state]
    by blast
qed

section \<open>The default of the decision date\<close>

text \<open>
  Whenever the timeline holds the key \<^verbatim>\<open>decision_date\<close>, the decision-date field is given
  the stored value, whatever the judgement date is; the default timeline holds the key,
  and so does every timeline that the timeline editor has written.
\<close>

lemma timeline_decision_date_stored:
  "timeline st ''decision_date'' = Some v \<Longrightarrow> timeline_decision_date st = v"
  by (simp add: timeline_decision_date_def dict_get_def)

lemma edit_timeline_keeps_key:
  "timeline (fst (edit_timeline i st)) ''decision_date'' = Some (of_date (timeline_decision i))"
  by (simp add: edit_timeline_def)

text \<open>
  Claim C3 at a concrete input. In the first pass in which the user has entered a
  judgement date (15 January 2024) and has never set a decision date, the judgement date
  is stored, the stored decision date is \<^verbatim>\<open>None\<close>, and the decision-date field is given
  \<^verbatim>\<open>None\<close>, not the judgement date.
\<close>

theorem decision_date_not_prefilled:
  "case_details (fst (edit_case_details judgement_date_entered default_session_state))
     ''judgement_date'' = Some (VDate (2024, 1, 15))
   \<and> timeline (fst (edit_case_details judgement_date_entered default_session_state))
     ''decision_date'' = Some VNone
   \<and> timeline_decision_date (fst (edit_case_details judgement_date_entered default_session_state))
     = VNone
   \<and> Widget ''timeline_decision'' VNone
       \<in> set (snd (render_pass judgement_date_entered default_session_state))
   \<and> Widget ''timeline_decision'' (VDate (2024, 1, 15))
       \<notin> set (snd (render_pass judgement_date_entered default_session_state))"
  by (simp add: judgement_date_entered_def idle_inputs_def example_file_def
      default_session_state_def render_pass_def script_def sidebar_def api_key_to_use_def
      configure_gemini_def main_area_def process_pdf_text_def extract_text_from_pdf_def
      summarize_button_disabled_def summary_display_def edit_case_details_def
      edit_timeline_def recorded_hearings_def timeline_decision_date_def dict_get_def
      on_change_def Let_def)

end
